theory Spec2Isabelle
  imports Main "HOL-Library.AList"
begin

section \<open>Values of the host language\<close>

text \<open>
  The client is TypeScript: a decoded response body is an arbitrary JSON value, an
  optional parameter is a value that may be \<open>undefined\<close>, and the guards of the
  client (\<open>if (accountId)\<close>, \<open>while (nextUrl)\<close>, \<open>result.data || []\<close>) test
  truthiness, not presence. A decoded value is a \<open>json\<close>; a value that may be
  \<open>undefined\<close> is a \<open>json option\<close> (or a \<open>string option\<close> where the source
  types it \<open>string | undefined\<close>), with \<open>None\<close> for \<open>undefined\<close>.
  The keys of a \<open>JObj\<close> are taken to be distinct, as the keys of an object are.
\<close>

datatype json =
    JNull
  | JBool bool
  | JNum int
  | JStr string
  | JArr "json list"
  | JObj "(string \<times> json) list"

fun truthy_json :: "json \<Rightarrow> bool" where
  "truthy_json JNull = False"
| "truthy_json (JBool b) = b"
| "truthy_json (JNum n) = (n \<noteq> 0)"
| "truthy_json (JStr s) = (s \<noteq> [])"
| "truthy_json (JArr xs) = True"
| "truthy_json (JObj kvs) = True"

fun truthy :: "json option \<Rightarrow> bool" where
  "truthy None = False"
| "truthy (Some v) = truthy_json v"

fun truthy_str :: "string option \<Rightarrow> bool" where
  "truthy_str None = False"
| "truthy_str (Some s) = (s \<noteq> [])"

text \<open>The string a guard \<open>if (s)\<close> lets through.\<close>

fun given :: "string option \<Rightarrow> string option" where
  "given None = None"
| "given (Some s) = (if s \<noteq> [] then Some s else None)"

section \<open>Errors\<close>

text \<open>
  The classification tags of the Failure Classifier (spec section 4.3), and the errors
  a caller of the client can observe: a failure of the quota gate, a classified
  provider failure annotated with the attempt count and the call description, an
  \<open>Error\<close> thrown by the client itself, and a \<open>TypeError\<close> of the runtime.
\<close>

datatype failure_class =
    TransientNetwork
  | ProviderServerError
  | ProviderRateLimited
  | ProviderAuthInvalid
  | ProviderValidationError
  | OtherClientError

datatype failure = Failure (failure_cls: failure_class) (failure_msg: string)

datatype error =
    QuotaExceeded string
  | ApiError failure nat string
  | ClientError string
  | TypeError

section \<open>Requests, events and the world\<close>

datatype http_method = GET | POST | DELETE

fun method_name :: "http_method \<Rightarrow> string" where
  "method_name GET = ''GET''"
| "method_name POST = ''POST''"
| "method_name DELETE = ''DELETE''"

text \<open>
  \<open>JsonBody v\<close> stands for the text \<open>JSON.stringify(v)\<close>.
\<close>

datatype payload = FormBody string | JsonBody json

record request =
  req_url :: string
  req_method :: http_method
  req_headers :: "(string \<times> string) list"
  req_body :: "payload option"

text \<open>
  What a call does besides returning is recorded in order: a consultation of the
  Quota Tracker (scope key, write flag), an outbound HTTP request, a backoff delay.
\<close>

datatype event =
    QuotaCheck string bool
  | HttpCall request
  | Backoff nat

fun is_quota :: "event \<Rightarrow> bool" where
  "is_quota (QuotaCheck a b) = True"
| "is_quota e = False"

fun is_http :: "event \<Rightarrow> bool" where
  "is_http (HttpCall r) = True"
| "is_http e = False"

text \<open>
  The world a call runs in: the state of the process-wide rate limiter
  (\<open>globalRateLimiter\<close>), the state of the network, and the events so far.
\<close>

record ('q, 'n) world =
  quota :: 'q
  net :: 'n
  events :: "event list"

definition emit :: "event \<Rightarrow> ('q, 'n) world \<Rightarrow> ('q, 'n) world" where
  "emit e w = w\<lparr>events := events w @ [e]\<rparr>"

definition new_events :: "('q, 'n) world \<Rightarrow> ('q, 'n) world \<Rightarrow> event list" where
  "new_events w w' = drop (length (events w)) (events w')"

section \<open>The Backoff Executor\<close>

record backoff_config =
  maxAttempts :: nat
  baseDelay :: nat
  maxDelay :: nat
  jitter :: "nat \<Rightarrow> nat"

text \<open>
  \<open>utils/error-handler.ts\<close>, which holds \<open>retryWithBackoff\<close> and the
  \<open>MetaApiErrorHandler\<close>, is not among the sources; the executor follows sections 4.3
  and 7 of the spec.
\<close>

text \<open>
  Modelled from the spec: the retry decision of \<open>retryWithBackoff\<close>
  (\<open>utils/error-handler.ts\<close> is missing). Section 4.3: network errors, HTTP 5xx and
  rate-limit classifications are retried; authentication and validation errors are not,
  nor, by section 7, anything else.
\<close>

fun retryable :: "failure_class \<Rightarrow> bool" where
  "retryable TransientNetwork = True"
| "retryable ProviderServerError = True"
| "retryable ProviderRateLimited = True"
| "retryable ProviderAuthInvalid = False"
| "retryable ProviderValidationError = False"
| "retryable OtherClientError = False"

text \<open>
  Modelled from the spec: the delay of \<open>retryWithBackoff\<close> (\<open>utils/error-handler.ts\<close> is
  missing). Section 4.3: \<open>base * 2^attempt\<close> plus jitter, capped at a maximum delay.
\<close>

definition backoff_delay :: "backoff_config \<Rightarrow> nat \<Rightarrow> nat" where
  "backoff_delay cfg n = min (maxDelay cfg) (baseDelay cfg * 2 ^ n + jitter cfg n)"

text \<open>
  Modelled from the spec: the loop of \<open>retryWithBackoff\<close> (\<open>utils/error-handler.ts\<close> is
  missing). Section 4.3: a result is returned; a failure that is not retried is returned
  at once; a retried failure is followed by the delay and the next attempt; on
  exhausting the attempts the last failure is returned, annotated with the attempt
  count; every failure is tagged with the call description.
  \<open>retry_loop cfg op ctx k n w\<close> is attempt number \<open>n\<close> (0-indexed) with \<open>k\<close> further
  attempts allowed after it.
\<close>

fun retry_loop ::
  "backoff_config \<Rightarrow> (('q, 'n) world \<Rightarrow> (failure + 'a) \<times> ('q, 'n) world) \<Rightarrow> string \<Rightarrow>
   nat \<Rightarrow> nat \<Rightarrow> ('q, 'n) world \<Rightarrow> (error + 'a) \<times> ('q, 'n) world" where
  "retry_loop cfg op ctx 0 n w =
     (case op w of
        (Inr v, w') \<Rightarrow> (Inr v, w')
      | (Inl f, w') \<Rightarrow> (Inl (ApiError f (Suc n) ctx), w'))"
| "retry_loop cfg op ctx (Suc k) n w =
     (case op w of
        (Inr v, w') \<Rightarrow> (Inr v, w')
      | (Inl f, w') \<Rightarrow>
          if retryable (failure_cls f)
          then retry_loop cfg op ctx k (Suc n) (emit (Backoff (backoff_delay cfg n)) w')
          else (Inl (ApiError f (Suc n) ctx), w'))"

text \<open>
  Modelled from the spec: \<open>retryWithBackoff(operation, context)\<close>
  (\<open>utils/error-handler.ts\<close> is missing). Section 4.3: up to a fixed maximum attempt
  count. The operation is attempted at least once, also when that maximum is 0.
\<close>

definition retryWithBackoff ::
  "backoff_config \<Rightarrow> (('q, 'n) world \<Rightarrow> (failure + 'a) \<times> ('q, 'n) world) \<Rightarrow> string \<Rightarrow>
   ('q, 'n) world \<Rightarrow> (error + 'a) \<times> ('q, 'n) world" where
  "retryWithBackoff cfg op ctx w = retry_loop cfg op ctx (maxAttempts cfg - 1) 0 w"

section \<open>The Quota Tracker\<close>

record quota_config =
  maxScore :: nat
  decayMs :: nat
  blockMs :: nat

record quota_window =
  score :: nat
  windowStart :: nat
  blockedUntil :: "nat option"

type_synonym tracker = "string \<Rightarrow> quota_window option"

datatype verdict = Proceed | Blocked nat

text \<open>
  \<open>utils/rate-limiter.ts\<close>, which holds the \<open>globalRateLimiter\<close>, is not among the
  sources; the tracker follows sections 3 and 4.2 of the spec.
\<close>

text \<open>
  Modelled from the spec: expiry of a window (\<open>utils/rate-limiter.ts\<close> is missing).
  Section 4.2, step 1: the window has expired when now \<open>\<ge>\<close> window start + decay length.
\<close>

definition expired :: "quota_config \<Rightarrow> nat \<Rightarrow> quota_window \<Rightarrow> bool" where
  "expired cfg now win \<longleftrightarrow> windowStart win + decayMs cfg \<le> now"

text \<open>
  Modelled from the spec: the threshold test of \<open>checkAndReserve\<close>
  (\<open>utils/rate-limiter.ts\<close> is missing). Section 4.2, step 3: a resulting score above the
  maximum marks the window blocked until \<open>now + blockDuration\<close>, and the call is blocked.
\<close>

definition settle :: "quota_config \<Rightarrow> nat \<Rightarrow> string \<Rightarrow> quota_window \<Rightarrow> tracker \<Rightarrow>
    verdict \<times> tracker" where
  "settle cfg now key win t =
     (if maxScore cfg < score win
      then (Blocked (now + blockMs cfg),
            t(key \<mapsto> win\<lparr>blockedUntil := Some (now + blockMs cfg)\<rparr>))
      else (Proceed, t(key \<mapsto> win)))"

text \<open>
  Modelled from the spec: \<open>checkAndReserve\<close> (\<open>utils/rate-limiter.ts\<close> is missing).
  Section 4.2, \<open>checkAndReserve(scopeKey, cost)\<close> at time \<open>now\<close>: with no
  window for the key, or an expired one, a new window starts with score \<open>cost\<close> (step 1);
  otherwise \<open>cost\<close> is added to the score (step 2); step 3 is \<open>settle\<close>. A call that
  falls inside a blocked window is blocked without scoring (step 4 and section 8: no
  further scoring occurs until that time passes).
\<close>

definition checkAndReserve :: "quota_config \<Rightarrow> nat \<Rightarrow> string \<Rightarrow> nat \<Rightarrow> tracker \<Rightarrow>
    verdict \<times> tracker" where
  "checkAndReserve cfg now key cost t =
     (case t key of
        None \<Rightarrow>
          settle cfg now key \<lparr>score = cost, windowStart = now, blockedUntil = None\<rparr> t
      | Some win \<Rightarrow>
          if expired cfg now win
          then settle cfg now key \<lparr>score = cost, windowStart = now, blockedUntil = None\<rparr> t
          else (case blockedUntil win of
                  None \<Rightarrow> settle cfg now key (win\<lparr>score := score win + cost\<rparr>) t
                | Some b \<Rightarrow>
                    if now < b then (Blocked b, t)
                    else settle cfg now key (win\<lparr>score := score win + cost\<rparr>) t))"

text \<open>A sequence of calls for one scope key, each with its time and its cost.\<close>

fun run_calls :: "quota_config \<Rightarrow> string \<Rightarrow> (nat \<times> nat) list \<Rightarrow> tracker \<Rightarrow>
    verdict list \<times> tracker" where
  "run_calls cfg key [] t = ([], t)"
| "run_calls cfg key ((now, cost) # cs) t =
     (case checkAndReserve cfg now key cost t of
        (v, t') \<Rightarrow> (case run_calls cfg key cs t' of (vs, t'') \<Rightarrow> (v # vs, t'')))"

section \<open>The API client\<close>

text \<open>
  What the client is constructed over and imports, none of it among the sources: the
  \<open>AuthManager\<close> (base URL, API version, authentication headers, account-id
  normalisation), the rate limiter's \<open>checkRateLimit\<close> (\<open>Some e\<close>: it throws \<open>e\<close>),
  \<open>fetch\<close> (\<open>Inl\<close>: the promise rejects), \<open>MetaApiErrorHandler.handleResponse\<close>
  (decodes a response or throws a classified failure), the backoff configuration, and
  the platform: \<open>formEncode\<close> is \<open>URLSearchParams.toString\<close> on the entries in order,
  \<open>jsonStringify\<close> is \<open>JSON.stringify\<close>, \<open>stringOf\<close> is \<open>String\<close>, and \<open>parseUrl v\<close>
  is \<open>new URL(v)\<close>, giving \<open>pathname\<close> and \<open>search\<close>, or \<open>None\<close> where the constructor
  throws.
\<close>

record ('q, 'n, 'r) env =
  getBaseUrl :: string
  getApiVersion :: string
  getAuthHeaders :: "failure + (string \<times> string) list"
  getAccountId :: "string \<Rightarrow> string"
  checkRateLimit :: "string \<Rightarrow> bool \<Rightarrow> 'q \<Rightarrow> error option \<times> 'q"
  fetch :: "request \<Rightarrow> 'n \<Rightarrow> (failure + 'r) \<times> 'n"
  handleResponse :: "'r \<Rightarrow> failure + json"
  backoff :: backoff_config
  formEncode :: "(string \<times> string) list \<Rightarrow> string"
  jsonStringify :: "json \<Rightarrow> string"
  stringOf :: "json \<Rightarrow> string"
  parseUrl :: "json \<Rightarrow> (string \<times> string) option"

text \<open>
  Lines 47 to 49, \<open>await globalRateLimiter.checkRateLimit(accountId, isWriteCall)\<close>: the
  limiter's state is updated and the consultation recorded.
\<close>

definition consult :: "('q, 'n, 'r) env \<Rightarrow> string \<Rightarrow> bool \<Rightarrow> ('q, 'n) world \<Rightarrow>
    error option \<times> ('q, 'n) world" where
  "consult env a wr w =
     (case checkRateLimit env a wr (quota w) of
        (r, q') \<Rightarrow> (r, emit (QuotaCheck a wr) (w\<lparr>quota := q'\<rparr>)))"

text \<open>The operation \<open>makeRequest\<close> hands to \<open>retryWithBackoff\<close> (lines 51 to 71).\<close>

definition transport :: "('q, 'n, 'r) env \<Rightarrow> string \<Rightarrow> http_method \<Rightarrow> json option \<Rightarrow>
    ('q, 'n) world \<Rightarrow> (failure + json) \<times> ('q, 'n) world" where
  "transport env url m body w =
     (case getAuthHeaders env of
        Inl f \<Rightarrow> (Inl f, w)
      | Inr headers \<Rightarrow>
          (let req =
                 (if truthy body \<and> m \<noteq> GET
                  then (case body of
                          Some (JStr s) \<Rightarrow>
                            \<lparr>req_url = url, req_method = m,
                             req_headers = AList.update ''Content-Type''
                               ''application/x-www-form-urlencoded'' headers,
                             req_body = Some (FormBody s)\<rparr>
                        | Some v \<Rightarrow>
                            \<lparr>req_url = url, req_method = m,
                             req_headers = AList.update ''Content-Type''
                               ''application/json'' headers,
                             req_body = Some (JsonBody v)\<rparr>
                        | None \<Rightarrow>
                            \<lparr>req_url = url, req_method = m, req_headers = headers,
                             req_body = None\<rparr>)
                  else \<lparr>req_url = url, req_method = m, req_headers = headers,
                        req_body = None\<rparr>);
               w1 = emit (HttpCall req) w
           in case fetch env req (net w1) of
                (Inl f, n') \<Rightarrow> (Inl f, w1\<lparr>net := n'\<rparr>)
              | (Inr response, n') \<Rightarrow> (handleResponse env response, w1\<lparr>net := n'\<rparr>)))"

text \<open>\<open>makeRequest\<close>, lines 37 to 72.\<close>

definition makeRequest :: "('q, 'n, 'r) env \<Rightarrow> string \<Rightarrow> http_method \<Rightarrow> json option \<Rightarrow>
    string option \<Rightarrow> bool \<Rightarrow> ('q, 'n) world \<Rightarrow> (error + json) \<times> ('q, 'n) world" where
  "makeRequest env endpoint m body accountId isWriteCall w =
     (let url = getBaseUrl env @ ''/'' @ getApiVersion env @ ''/'' @ endpoint
      in case (case given accountId of
                 Some a \<Rightarrow> consult env a isWriteCall w
               | None \<Rightarrow> (None, w)) of
           (Some e, w1) \<Rightarrow> (Inl e, w1)
         | (None, w1) \<Rightarrow>
             retryWithBackoff (backoff env) (transport env url m body)
               (method_name m @ '' '' @ endpoint) w1)"

subsection \<open>Property access, spread and query strings\<close>

text \<open>
  \<open>v.k\<close> for the keys the client reads (\<open>data\<close>, \<open>paging\<close>, \<open>next\<close>): a
  \<open>TypeError\<close> on \<open>null\<close>, the member of an object, \<open>undefined\<close> on anything else.
\<close>

fun getProp :: "string \<Rightarrow> json \<Rightarrow> error + json option" where
  "getProp k JNull = Inl TypeError"
| "getProp k (JObj kvs) = Inr (map_of kvs k)"
| "getProp k v = Inr None"



text \<open>
  An object literal is the list of its entries in insertion order, a member that may be
  \<open>undefined\<close> having value \<open>None\<close>. Assigning a member and \<open>URLSearchParams.set\<close>
  both replace in place or append.
\<close>

type_synonym params = "(string \<times> json option) list"

definition obj_spread :: "params \<Rightarrow> params \<Rightarrow> params" where
  "obj_spread base rest = foldl (\<lambda>acc (k, v). AList.update k v acc) base rest"

text \<open>\<open>buildQueryString\<close>, lines 74 to 90.\<close>

definition buildQueryString :: "('q, 'n, 'r) env \<Rightarrow> params \<Rightarrow> string" where
  "buildQueryString env ps =
     formEncode env
       (foldl (\<lambda>urlParams (key, val).
                 case val of
                   None \<Rightarrow> urlParams
                 | Some JNull \<Rightarrow> urlParams
                 | Some (JArr xs) \<Rightarrow> AList.update key (jsonStringify env (JArr xs)) urlParams
                 | Some (JObj kvs) \<Rightarrow> AList.update key (jsonStringify env (JObj kvs)) urlParams
                 | Some v \<Rightarrow> AList.update key (stringOf env v) urlParams)
          [] ps)"

text \<open>\<open>Array.prototype.join\<close> on an array of strings.\<close>

fun join :: "string \<Rightarrow> string list \<Rightarrow> string" where
  "join sep [] = []"
| "join sep [x] = x"
| "join sep (x # y # ys) = x @ sep @ join sep (y # ys)"

text \<open>\<open>fields?.join(",") || dflt\<close>\<close>

definition fields_or :: "string list option \<Rightarrow> string \<Rightarrow> string" where
  "fields_or fieldNames dflt =
     (case fieldNames of
        None \<Rightarrow> dflt
      | Some fs \<Rightarrow> if join '','' fs = [] then dflt else join '','' fs)"

subsection \<open>The Pagination Normalizer\<close>

record paginated_result =
  pr_data :: "json list"
  forwardCursor :: "string option"
  backwardCursor :: "string option"
  hasNextPage :: bool
  hasPreviousPage :: bool

text \<open>
  \<open>utils/pagination.ts\<close>, which holds the \<open>PaginationHelper\<close>, is not among the sources;
  the normalizer follows sections 3, 4.4 and 6 of the spec.
\<close>

text \<open>
  Modelled from the spec: reading the raw envelope (\<open>utils/pagination.ts\<close> is missing).
  Section 6: \<open>{ data: [...], paging: { cursors: { before, after }, next?, previous? } }\<close>.
  \<open>member\<close> is a member of an object when present.
\<close>

definition member :: "string \<Rightarrow> json option \<Rightarrow> json option" where
  "member k v = (case v of Some (JObj kvs) \<Rightarrow> map_of kvs k | _ \<Rightarrow> None)"

text \<open>
  Modelled from the spec: a cursor or URL of the raw envelope, present as a plain string
  token (\<open>utils/pagination.ts\<close> is missing; section 4.4).
\<close>

definition token :: "string \<Rightarrow> json option \<Rightarrow> string option" where
  "token k v = (case member k v of Some (JStr s) \<Rightarrow> Some s | _ \<Rightarrow> None)"

text \<open>
  Modelled from the spec: the cursor taken from a full next-page URL
  (\<open>utils/pagination.ts\<close> is missing). Section 4.4: the path and query relative to the
  provider's base.
\<close>

definition relative_to_base :: "('q, 'n, 'r) env \<Rightarrow> string \<Rightarrow> string option" where
  "relative_to_base env u =
     (case parseUrl env (JStr u) of
        None \<Rightarrow> None
      | Some (pathname, search) \<Rightarrow> Some (drop 1 pathname @ search))"

text \<open>
  Modelled from the spec: \<open>PaginationHelper.parsePaginatedResponse\<close>
  (\<open>utils/pagination.ts\<close> is missing). Section 4.4: the raw envelope is a record list plus
  a paging block; the
  \<open>after\<close>/\<open>before\<close> cursor tokens are extracted when present; when only a full
  next-page URL is present its path and query relative to the provider's base are
  extracted; \<open>hasNextPage\<close>/\<open>hasPreviousPage\<close> are set purely from cursor/URL presence.
\<close>

definition parsePaginatedResponse :: "('q, 'n, 'r) env \<Rightarrow> json \<Rightarrow> paginated_result" where
  "parsePaginatedResponse env raw =
     (let paging = member ''paging'' (Some raw);
          cursors = member ''cursors'' paging;
          after = token ''after'' cursors;
          before = token ''before'' cursors;
          nxt = token ''next'' paging;
          previous = token ''previous'' paging
      in \<lparr>pr_data = (case member ''data'' (Some raw) of Some (JArr xs) \<Rightarrow> xs | _ \<Rightarrow> []),
          forwardCursor =
            (case after of
               Some a \<Rightarrow> Some a
             | None \<Rightarrow> (case nxt of Some u \<Rightarrow> relative_to_base env u | None \<Rightarrow> None)),
          backwardCursor =
            (case before of
               Some b \<Rightarrow> Some b
             | None \<Rightarrow> (case previous of Some u \<Rightarrow> relative_to_base env u | None \<Rightarrow> None)),
          hasNextPage = (after \<noteq> None \<or> nxt \<noteq> None),
          hasPreviousPage = (before \<noteq> None \<or> previous \<noteq> None)\<rparr>)"

text \<open>
  Modelled from the spec: what a list envelope is (section 6): an object whose \<open>data\<close>
  member is an array.
\<close>

definition is_list_envelope :: "json \<Rightarrow> bool" where
  "is_list_envelope b = (case member ''data'' (Some b) of Some (JArr xs) \<Rightarrow> True | _ \<Rightarrow> False)"

subsection \<open>Operations of the client\<close>

text \<open>
  The \<open>console.log\<close> calls of the source are left out. An object parameter is
  passed as its destructured members, the rest pattern as a \<open>params\<close> list.
\<close>






text \<open>\<open>getCampaigns\<close>, lines 119 to 146.\<close>

definition getCampaigns :: "('q, 'n, 'r) env \<Rightarrow> string \<Rightarrow> json option \<Rightarrow> string list option \<Rightarrow>
    params \<Rightarrow> ('q, 'n) world \<Rightarrow> (error + paginated_result) \<times> ('q, 'n) world" where
  "getCampaigns env accountId status fieldNames paginationParams w =
     (let formattedAccountId = getAccountId env accountId;
          queryParams0 = obj_spread
            [(''fields'', Some (JStr (fields_or fieldNames
               ''id,name,objective,status,effective_status,created_time,updated_time,start_time,stop_time,budget_remaining,daily_budget,lifetime_budget'')))]
            paginationParams;
          queryParams =
            (case status of
               None \<Rightarrow> queryParams0
             | Some st \<Rightarrow>
                 if truthy_json st
                 then AList.update ''effective_status''
                        (Some (JStr (jsonStringify env (JArr [st])))) queryParams0
                 else queryParams0);
          query = buildQueryString env queryParams
      in case makeRequest env (formattedAccountId @ ''/campaigns?'' @ query) GET (Some JNull)
                (Some formattedAccountId) False w of
           (Inl e, w') \<Rightarrow> (Inl e, w')
         | (Inr response, w') \<Rightarrow> (Inr (parsePaginatedResponse env response), w'))"

text \<open>\<open>updateCampaign\<close>, lines 182 to 202, and \<open>deleteCampaign\<close>, lines 204 to 212.\<close>

definition updateCampaign :: "('q, 'n, 'r) env \<Rightarrow> string \<Rightarrow> params \<Rightarrow> ('q, 'n) world \<Rightarrow>
    (error + json) \<times> ('q, 'n) world" where
  "updateCampaign env campaignId updates w =
     (let body = buildQueryString env updates
      in makeRequest env campaignId POST (Some (JStr body)) None True w)"

definition deleteCampaign :: "('q, 'n, 'r) env \<Rightarrow> string \<Rightarrow> ('q, 'n) world \<Rightarrow>
    (error + json) \<times> ('q, 'n) world" where
  "deleteCampaign env campaignId w = makeRequest env campaignId DELETE (Some JNull) None True w"

text \<open>\<open>getAdSets\<close>, lines 215 to 256.\<close>

definition getAdSets :: "('q, 'n, 'r) env \<Rightarrow> string option \<Rightarrow> string option \<Rightarrow> string option \<Rightarrow>
    string list option \<Rightarrow> params \<Rightarrow> ('q, 'n) world \<Rightarrow>
    (error + paginated_result) \<times> ('q, 'n) world" where
  "getAdSets env campaignId accountId status fieldNames paginationParams w =
     (case (case given campaignId of
              Some c \<Rightarrow> Inr (c @ ''/adsets'')
            | None \<Rightarrow>
                (case given accountId of
                   Some a \<Rightarrow> Inr (getAccountId env a @ ''/adsets'')
                 | None \<Rightarrow>
                     Inl (ClientError ''Either campaignId or accountId must be provided''))) of
        Inl e \<Rightarrow> (Inl e, w)
      | Inr endpoint \<Rightarrow>
          (let queryParams0 = obj_spread
                 [(''fields'', Some (JStr (fields_or fieldNames
                    ''id,name,campaign_id,status,effective_status,created_time,updated_time,start_time,end_time,daily_budget,lifetime_budget,bid_amount,billing_event,optimization_goal'')))]
                 paginationParams;
               queryParams =
                 (case given status of
                    None \<Rightarrow> queryParams0
                  | Some st \<Rightarrow>
                      AList.update ''effective_status''
                        (Some (JStr (jsonStringify env (JArr [JStr st])))) queryParams0);
               query = buildQueryString env queryParams
           in case makeRequest env (endpoint @ ''?'' @ query) GET (Some JNull)
                     (map_option (getAccountId env) (given accountId)) False w of
                (Inl e, w') \<Rightarrow> (Inl e, w')
              | (Inr response, w') \<Rightarrow> (Inr (parsePaginatedResponse env response), w')))"

text \<open>\<open>createAd\<close>, lines 539 to 601: the \<open>catch\<close> block logs and rethrows.\<close>

definition createAd :: "('q, 'n, 'r) env \<Rightarrow> string \<Rightarrow> params \<Rightarrow> ('q, 'n) world \<Rightarrow>
    (error + json) \<times> ('q, 'n) world" where
  "createAd env adSetId adData w =
     (let body = buildQueryString env adData
      in case makeRequest env (adSetId @ ''/ads'') POST (Some (JStr body)) None True w of
           (Inl e, w') \<Rightarrow> (Inl e, w')
         | (Inr result, w') \<Rightarrow> (Inr result, w'))"

text \<open>\<open>getAds\<close>, lines 604 to 656.\<close>

definition getAds :: "('q, 'n, 'r) env \<Rightarrow> string option \<Rightarrow> string option \<Rightarrow> string option \<Rightarrow>
    string option \<Rightarrow> string list option \<Rightarrow> params \<Rightarrow> ('q, 'n) world \<Rightarrow>
    (error + paginated_result) \<times> ('q, 'n) world" where
  "getAds env adsetId campaignId accountId status fieldNames paginationParams w =
     (case (case given adsetId of
              Some s \<Rightarrow> Inr (s @ ''/ads'')
            | None \<Rightarrow>
                (case given campaignId of
                   Some c \<Rightarrow> Inr (c @ ''/ads'')
                 | None \<Rightarrow>
                     (case given accountId of
                        Some a \<Rightarrow> Inr (getAccountId env a @ ''/ads'')
                      | None \<Rightarrow>
                          Inl (ClientError
                            ''Either adsetId, campaignId, or accountId must be provided'')))) of
        Inl e \<Rightarrow> (Inl e, w)
      | Inr endpoint \<Rightarrow>
          (let queryParams0 = obj_spread
                 [(''fields'', Some (JStr (fields_or fieldNames
                    ''id,name,adset_id,campaign_id,status,effective_status,created_time,updated_time,creative'')))]
                 paginationParams;
               queryParams =
                 (case given status of
                    None \<Rightarrow> queryParams0
                  | Some st \<Rightarrow>
                      AList.update ''effective_status''
                        (Some (JStr (jsonStringify env (JArr [JStr st])))) queryParams0);
               query = buildQueryString env queryParams
           in case makeRequest env (endpoint @ ''?'' @ query) GET (Some JNull)
                     (map_option (getAccountId env) (given accountId)) False w of
                (Inl e, w') \<Rightarrow> (Inl e, w')
              | (Inr response, w') \<Rightarrow> (Inr (parsePaginatedResponse env response), w')))"

text \<open>
  \<open>getFundingSources\<close>, lines 728 to 743, and \<open>getAccountBusiness\<close>, lines 745 to 759:
  the request and the read of \<open>result.data\<close> are inside the \<open>try\<close>.
\<close>

definition getFundingSources :: "('q, 'n, 'r) env \<Rightarrow> string \<Rightarrow> ('q, 'n) world \<Rightarrow>
    (error + json) \<times> ('q, 'n) world" where
  "getFundingSources env accountId w =
     (let formattedAccountId = getAccountId env accountId
      in case makeRequest env (formattedAccountId @ ''/funding_source_details'') GET None
                (Some formattedAccountId) False w of
           (Inl e, w') \<Rightarrow> (Inr (JArr []), w')
         | (Inr result, w') \<Rightarrow>
             (case getProp ''data'' result of
                Inl e \<Rightarrow> (Inr (JArr []), w')
              | Inr None \<Rightarrow> (Inr (JArr []), w')
              | Inr (Some d) \<Rightarrow> (Inr (if truthy_json d then d else JArr []), w')))"

definition getAccountBusiness :: "('q, 'n, 'r) env \<Rightarrow> string \<Rightarrow> ('q, 'n) world \<Rightarrow>
    (error + json) \<times> ('q, 'n) world" where
  "getAccountBusiness env accountId w =
     (let formattedAccountId = getAccountId env accountId
      in case makeRequest env (formattedAccountId @ ''/business'') GET None
                (Some formattedAccountId) False w of
           (Inl e, w') \<Rightarrow> (Inr (JObj []), w')
         | (Inr result, w') \<Rightarrow> (Inr result, w'))"

text \<open>\<open>batchRequest\<close>, lines 772 to 778.\<close>

definition batchRequest :: "('q, 'n, 'r) env \<Rightarrow> json list \<Rightarrow> ('q, 'n) world \<Rightarrow>
    (error + json) \<times> ('q, 'n) world" where
  "batchRequest env requests w =
     (let body = buildQueryString env
                   [(''batch'', Some (JStr (jsonStringify env (JArr requests))))]
      in makeRequest env [] POST (Some (JStr body)) None True w)"

section \<open>A scripted environment\<close>

text \<open>
  For concrete runs: the network answers the requests in order from a script and
  rejects once the script is used up; \<open>handleResponse\<close> throws the scripted failure or
  returns the scripted body. The platform is cut down to what the runs need: no
  percent-encoding, no string escapes, and URLs of the one origin only.
\<close>

definition scripted_fetch :: "request \<Rightarrow> (failure + json) list \<Rightarrow>
    (failure + (failure + json)) \<times> (failure + json) list" where
  "scripted_fetch req script =
     (case script of
        [] \<Rightarrow> (Inl (Failure TransientNetwork ''fetch failed''), [])
      | x # xs \<Rightarrow> (Inr x, xs))"

text \<open>
  Modelled from the spec: \<open>AuthManager.getAccountId\<close> (\<open>utils/auth.ts\<close> is missing).
  Section 4.1, \<open>normalizeScopeId\<close>: the account identifier in the provider's prefixed
  form, idempotently.
\<close>

definition normalizeScopeId :: "string \<Rightarrow> string" where
  "normalizeScopeId ident = (if take 4 ident = ''act_'' then ident else ''act_'' @ ident)"

definition plain_form :: "(string \<times> string) list \<Rightarrow> string" where
  "plain_form kvs = join ''&'' (map (\<lambda>(k, v). k @ ''='' @ v) kvs)"

fun digits :: "nat \<Rightarrow> string" where
  "digits n =
     (if n < 10 then [char_of (48 + n)] else digits (n div 10) @ [char_of (48 + n mod 10)])"

fun plain_json :: "json \<Rightarrow> string" where
  "plain_json JNull = ''null''"
| "plain_json (JBool b) = (if b then ''true'' else ''false'')"
| "plain_json (JNum n) = (if n < 0 then ''-'' @ digits (nat (- n)) else digits (nat n))"
| "plain_json (JStr s) = [CHR 0x22] @ s @ [CHR 0x22]"
| "plain_json (JArr xs) = ''['' @ join '','' (map plain_json xs) @ '']''"
| "plain_json (JObj kvs) =
     ''{'' @ join '','' (map (\<lambda>(k, v). [CHR 0x22] @ k @ [CHR 0x22] @ '':'' @ plain_json v) kvs)
       @ ''}''"

definition plain_string :: "json \<Rightarrow> string" where
  "plain_string v = (case v of JStr s \<Rightarrow> s | _ \<Rightarrow> plain_json v)"

definition origin_url :: "string \<Rightarrow> json \<Rightarrow> (string \<times> string) option" where
  "origin_url origin v =
     (case v of
        JStr u \<Rightarrow>
          if take (length origin) u = origin
          then (let r = drop (length origin) u;
                    p = takeWhile (\<lambda>c. c \<noteq> CHR ''?'') r
                in Some (if p = [] then ''/'' else p, dropWhile (\<lambda>c. c \<noteq> CHR ''?'') r))
          else None
      | _ \<Rightarrow> None)"

text \<open>A limiter that lets every call through and counts the consultations.\<close>

definition counting_limiter :: "string \<Rightarrow> bool \<Rightarrow> nat \<Rightarrow> error option \<times> nat" where
  "counting_limiter a isWriteCall q = (None, Suc q)"

definition scripted_env :: "(string \<Rightarrow> bool \<Rightarrow> 'q \<Rightarrow> error option \<times> 'q) \<Rightarrow>
    ('q, (failure + json) list, failure + json) env" where
  "scripted_env limiter =
     \<lparr>getBaseUrl = ''https://g.test'',
      getApiVersion = ''v23.0'',
      getAuthHeaders = Inr [(''Authorization'', ''Bearer t'')],
      getAccountId = normalizeScopeId,
      checkRateLimit = limiter,
      fetch = scripted_fetch,
      handleResponse = (\<lambda>r. r),
      backoff = \<lparr>maxAttempts = 3, baseDelay = 1000, maxDelay = 30000, jitter = (\<lambda>n. 0)\<rparr>,
      formEncode = plain_form,
      jsonStringify = plain_json,
      stringOf = plain_string,
      parseUrl = origin_url ''https://g.test''\<rparr>"

section \<open>Pages of a walk\<close>





text \<open>
  Step 4 of the spec's \<open>request\<close> (section 4.5), as a function of the decoded body: what
  the caller would get if list envelopes were normalised and other bodies returned as
  they are.
\<close>

datatype returned = Decoded json | Normalized paginated_result

definition request_step4 :: "('q, 'n, 'r) env \<Rightarrow> json \<Rightarrow> returned" where
  "request_step4 env b =
     (if is_list_envelope b then Normalized (parsePaginatedResponse env b) else Decoded b)"


definition page_cursors_only :: json where
  "page_cursors_only =
     JObj [(''data'', JArr [JStr ''act_3'']),
           (''paging'', JObj [(''cursors'', JObj [(''before'', JStr ''A''), (''after'', JStr ''B'')])])]"

definition single_resource :: json where
  "single_resource = JObj [(''id'', JStr ''120'')]"

section \<open>Properties\<close>

subsection \<open>Events of a request\<close>

text \<open>
  An operation is quiet when it leaves the quota state alone and records no
  consultation of the Quota Tracker.
\<close>

definition quiet :: "(('q, 'n) world \<Rightarrow> 'x \<times> ('q, 'n) world) \<Rightarrow> bool" where
  "quiet op \<longleftrightarrow> (\<forall>w. quota (snd (op w)) = quota w \<and>
      (\<exists>es. events (snd (op w)) = events w @ es \<and> (\<forall>e\<in>set es. \<not> is_quota e)))"

lemma events_emit [simp]: "events (emit e w) = events w @ [e]"
  and quota_emit [simp]: "quota (emit e w) = quota w"
  and net_emit [simp]: "net (emit e w) = net w"
  by (simp_all add: emit_def)

lemma quiet_transport: "quiet (transport env url m body)"
  unfolding quiet_def
proof (intro allI)
  fix w :: "('a, 'b) world"
  show "quota (snd (transport env url m body w)) = quota w \<and>
      (\<exists>es. events (snd (transport env url m body w)) = events w @ es \<and> (\<forall>e\<in>set es. \<not> is_quota e))"
    by (auto simp: transport_def Let_def split: sum.splits prod.splits)
qed

lemma quiet_retry_loop:
  assumes "quiet op"
  shows "quota (snd (retry_loop cfg op ctx k n w)) = quota w \<and>
      (\<exists>es. events (snd (retry_loop cfg op ctx k n w)) = events w @ es \<and> (\<forall>e\<in>set es. \<not> is_quota e))"
proof (induction k arbitrary: n w)
  case 0
  from assms obtain es where "quota (snd (op w)) = quota w"
    "events (snd (op w)) = events w @ es" "\<forall>e\<in>set es. \<not> is_quota e"
    unfolding quiet_def by blast
  then show ?case by (auto split: prod.splits sum.splits)
next
  case (Suc k)
  from assms obtain es where op: "quota (snd (op w)) = quota w"
    "events (snd (op w)) = events w @ es" "\<forall>e\<in>set es. \<not> is_quota e"
    unfolding quiet_def by blast
  obtain r w' where ow: "op w = (r, w')" by (cases "op w")
  show ?case
  proof (cases r)
    case (Inr v)
    with ow op show ?thesis by auto
  next
    case (Inl f)
    show ?thesis
    proof (cases "retryable (failure_cls f)")
      case False
      with Inl ow op show ?thesis by auto
    next
      case True
      let ?w1 = "emit (Backoff (backoff_delay cfg n)) w'"
      from Suc.IH[of "Suc n" ?w1] obtain es' where
        "quota (snd (retry_loop cfg op ctx k (Suc n) ?w1)) = quota ?w1"
        "events (snd (retry_loop cfg op ctx k (Suc n) ?w1)) = events ?w1 @ es'"
        "\<forall>e\<in>set es'. \<not> is_quota e" by blast
      with True Inl ow op show ?thesis by auto
    qed
  qed
qed

lemma makeRequest_ungated:
  assumes "\<not> truthy_str accountId"
  shows "quota (snd (makeRequest env endpoint m body accountId isWriteCall w)) = quota w \<and>
     (\<exists>es. events (snd (makeRequest env endpoint m body accountId isWriteCall w)) = events w @ es
        \<and> (\<forall>e\<in>set es. \<not> is_quota e))"
proof -
  from assms have "given accountId = None"
    by (cases accountId) auto
  then have "makeRequest env endpoint m body accountId isWriteCall w =
     retry_loop (backoff env)
       (transport env (getBaseUrl env @ ''/'' @ getApiVersion env @ ''/'' @ endpoint) m body)
       (method_name m @ '' '' @ endpoint) (maxAttempts (backoff env) - 1) 0 w"
    by (auto simp: makeRequest_def retryWithBackoff_def)
  then show ?thesis
    using quiet_retry_loop [OF quiet_transport] by simp
qed

lemma makeRequest_gated:
  assumes "a \<noteq> []"
  shows "quota (snd (makeRequest env endpoint m body (Some a) isWriteCall w)) =
        snd (checkRateLimit env a isWriteCall (quota w)) \<and>
     (\<exists>es. events (snd (makeRequest env endpoint m body (Some a) isWriteCall w)) =
          events w @ QuotaCheck a isWriteCall # es
        \<and> (\<forall>e\<in>set es. \<not> is_quota e))"
proof -
  obtain r q' where c: "checkRateLimit env a isWriteCall (quota w) = (r, q')"
    by (cases "checkRateLimit env a isWriteCall (quota w)")
  let ?w1 = "emit (QuotaCheck a isWriteCall) (w\<lparr>quota := q'\<rparr>)"
  show ?thesis
  proof (cases r)
    case (Some e)
    with c assms show ?thesis
      by (simp add: makeRequest_def consult_def)
  next
    case None
    with c assms have "makeRequest env endpoint m body (Some a) isWriteCall w =
       retry_loop (backoff env)
         (transport env (getBaseUrl env @ ''/'' @ getApiVersion env @ ''/'' @ endpoint) m body)
         (method_name m @ '' '' @ endpoint) (maxAttempts (backoff env) - 1) 0 ?w1"
      by (simp add: makeRequest_def consult_def retryWithBackoff_def)
    then show ?thesis
      using quiet_retry_loop [OF quiet_transport, of _ env _ m body _ _ 0 ?w1] c
      by auto
  qed
qed

subsection \<open>The quota gate of \<open>makeRequest\<close>\<close>

lemma makeRequest_rejected:
  assumes "a \<noteq> []" and "fst (checkRateLimit env a isWriteCall (quota w)) = Some e"
  shows "makeRequest env endpoint m body (Some a) isWriteCall w =
     (Inl e, emit (QuotaCheck a isWriteCall)
               (w\<lparr>quota := snd (checkRateLimit env a isWriteCall (quota w))\<rparr>))"
  using assms
  by (cases "checkRateLimit env a isWriteCall (quota w)")
     (simp add: makeRequest_def consult_def)

text \<open>
  C1. For every invocation of \<open>makeRequest\<close>, the Quota Tracker is consulted if and
  only if an account id is supplied (a non-empty string: the guard is \<open>if (accountId)\<close>).
  When it is consulted, the consultation is the first event of the call, so it comes
  before every outbound HTTP request; it is \<open>checkRateLimit\<close> applied to that account
  id and the write flag, the limiter's state afterwards being the state that check
  produced; and when the check throws, the call fails with that error and no request
  is attempted. A call with no account id leaves the quota state as it was.
\<close>

theorem makeRequest_quota_iff_accountId:
  "(let w' = snd (makeRequest env endpoint m body accountId isWriteCall w);
        es = new_events w w'
    in events w' = events w @ es
     \<and> ((\<exists>e\<in>set es. is_quota e) \<longleftrightarrow> truthy_str accountId)
     \<and> (\<forall>i j. i < length es \<and> j < length es \<and> is_quota (es ! i) \<and> is_http (es ! j) \<longrightarrow> i < j)
     \<and> (\<not> truthy_str accountId \<longrightarrow> quota w' = quota w)
     \<and> (\<forall>a. accountId = Some a \<and> a \<noteq> [] \<longrightarrow>
           quota w' = snd (checkRateLimit env a isWriteCall (quota w))
           \<and> (\<exists>rest. es = QuotaCheck a isWriteCall # rest \<and> (\<forall>e\<in>set rest. \<not> is_quota e)))
     \<and> (\<forall>a e. accountId = Some a \<and> a \<noteq> []
             \<and> fst (checkRateLimit env a isWriteCall (quota w)) = Some e \<longrightarrow>
           fst (makeRequest env endpoint m body accountId isWriteCall w) = Inl e
           \<and> es = [QuotaCheck a isWriteCall]))"
proof -
  define w' where "w' = snd (makeRequest env endpoint m body accountId isWriteCall w)"
  define es where "es = new_events w w'"
  have rej: "fst (makeRequest env endpoint m body accountId isWriteCall w) = Inl e
           \<and> es = [QuotaCheck a isWriteCall]"
    if "accountId = Some a" "a \<noteq> []" "fst (checkRateLimit env a isWriteCall (quota w)) = Some e"
    for a e
    using makeRequest_rejected [OF that(2,3), of endpoint m body] that(1)
    by (simp add: es_def w'_def new_events_def)
  have "events w' = events w @ es
     \<and> ((\<exists>e\<in>set es. is_quota e) \<longleftrightarrow> truthy_str accountId)
     \<and> (\<forall>i j. i < length es \<and> j < length es \<and> is_quota (es ! i) \<and> is_http (es ! j) \<longrightarrow> i < j)
     \<and> (\<not> truthy_str accountId \<longrightarrow> quota w' = quota w)
     \<and> (\<forall>a. accountId = Some a \<and> a \<noteq> [] \<longrightarrow>
           quota w' = snd (checkRateLimit env a isWriteCall (quota w))
           \<and> (\<exists>rest. es = QuotaCheck a isWriteCall # rest \<and> (\<forall>e\<in>set rest. \<not> is_quota e)))"
  proof (cases "truthy_str accountId")
    case False
    from makeRequest_ungated [OF False, of env endpoint m body isWriteCall w]
    obtain rest where q: "quota w' = quota w"
      and e: "events w' = events w @ rest"
      and n: "\<forall>e\<in>set rest. \<not> is_quota e"
      unfolding w'_def by blast
    from e have "es = rest"
      by (simp add: es_def new_events_def)
    have "\<not> is_quota (es ! i)" if "i < length es" for i
      using n that \<open>es = rest\<close> nth_mem by blast
    moreover from False have "\<not> (accountId = Some a \<and> a \<noteq> [])" for a by auto
    ultimately show ?thesis using False q e n \<open>es = rest\<close> by auto
  next
    case True
    then obtain a where a: "accountId = Some a" "a \<noteq> []" by (cases accountId) auto
    from makeRequest_gated [OF a(2), of env endpoint m body isWriteCall w]
    obtain rest where
      q: "quota w' = snd (checkRateLimit env a isWriteCall (quota w))"
      and e: "events w' = events w @ QuotaCheck a isWriteCall # rest"
      and n: "\<forall>e\<in>set rest. \<not> is_quota e"
      unfolding w'_def a(1) by blast
    from e have ne: "es = QuotaCheck a isWriteCall # rest"
      by (simp add: es_def new_events_def)
    have ord: "i < j" if "i < length es" "is_quota (es ! i)" "is_http (es ! j)" for i j
    proof -
      have "i = 0"
      proof (cases i)
        case (Suc i')
        with that(1) ne have "rest ! i' \<in> set rest" by simp
        with n that(2) ne Suc show ?thesis by simp
      qed simp
      moreover from that(3) ne have "j \<noteq> 0" by (cases j) simp_all
      ultimately show ?thesis by simp
    qed
    have c1: "events w' = events w @ es" using e ne by simp
    have c2: "(\<exists>e\<in>set es. is_quota e) \<longleftrightarrow> truthy_str accountId"
      using True ne by simp
    have c3: "\<forall>i j. i < length es \<and> j < length es \<and> is_quota (es ! i) \<and> is_http (es ! j) \<longrightarrow> i < j"
      using ord by blast
    have c5: "\<forall>a'. accountId = Some a' \<and> a' \<noteq> [] \<longrightarrow>
           quota w' = snd (checkRateLimit env a' isWriteCall (quota w))
           \<and> (\<exists>rest. es = QuotaCheck a' isWriteCall # rest \<and> (\<forall>e\<in>set rest. \<not> is_quota e))"
      using a(1) q ne n by simp
    from c1 c2 c3 c5 True show ?thesis by blast
  qed
  with rej have "events w' = events w @ es
     \<and> ((\<exists>e\<in>set es. is_quota e) \<longleftrightarrow> truthy_str accountId)
     \<and> (\<forall>i j. i < length es \<and> j < length es \<and> is_quota (es ! i) \<and> is_http (es ! j) \<longrightarrow> i < j)
     \<and> (\<not> truthy_str accountId \<longrightarrow> quota w' = quota w)
     \<and> (\<forall>a. accountId = Some a \<and> a \<noteq> [] \<longrightarrow>
           quota w' = snd (checkRateLimit env a isWriteCall (quota w))
           \<and> (\<exists>rest. es = QuotaCheck a isWriteCall # rest \<and> (\<forall>e\<in>set rest. \<not> is_quota e)))
     \<and> (\<forall>a e. accountId = Some a \<and> a \<noteq> []
             \<and> fst (checkRateLimit env a isWriteCall (quota w)) = Some e \<longrightarrow>
           fst (makeRequest env endpoint m body accountId isWriteCall w) = Inl e
           \<and> es = [QuotaCheck a isWriteCall])"
    by blast
  then show ?thesis
    unfolding Let_def w'_def es_def .
qed

theorem makeRequest_quota_iff_accountId_witness:
  "truthy_str (Some ''act_1'')
   \<and> quota (snd (makeRequest (scripted_env counting_limiter) ''act_1/campaigns'' GET None
          (Some ''act_1'') False \<lparr>quota = 0, net = [Inr (JObj [])], events = []\<rparr>)) = 1
   \<and> hd (new_events \<lparr>quota = 0, net = [Inr (JObj [])], events = []\<rparr>
       (snd (makeRequest (scripted_env counting_limiter) ''act_1/campaigns'' GET None
          (Some ''act_1'') False \<lparr>quota = 0, net = [Inr (JObj [])], events = []\<rparr>)))
     = QuotaCheck ''act_1'' False
   \<and> quota (snd (makeRequest (scripted_env counting_limiter) ''120'' GET None
          None False \<lparr>quota = 0, net = [Inr (JObj [])], events = []\<rparr>)) = 0"
proof -
  have c: "checkRateLimit (scripted_env counting_limiter) = counting_limiter"
    by (simp add: scripted_env_def)
  from makeRequest_quota_iff_accountId
    [where w = "\<lparr>quota = 0, net = [Inr (JObj [])], events = []\<rparr>"
       and env = "scripted_env counting_limiter" and endpoint = "''act_1/campaigns''"
       and m = GET and body = None and accountId = "Some ''act_1''" and isWriteCall = False]
  have "quota (snd (makeRequest (scripted_env counting_limiter) ''act_1/campaigns'' GET None
          (Some ''act_1'') False \<lparr>quota = 0, net = [Inr (JObj [])], events = []\<rparr>)) = 1
   \<and> hd (new_events \<lparr>quota = 0, net = [Inr (JObj [])], events = []\<rparr>
       (snd (makeRequest (scripted_env counting_limiter) ''act_1/campaigns'' GET None
          (Some ''act_1'') False \<lparr>quota = 0, net = [Inr (JObj [])], events = []\<rparr>)))
     = QuotaCheck ''act_1'' False"
    by (auto simp: Let_def c counting_limiter_def)
  moreover from makeRequest_quota_iff_accountId
    [where w = "\<lparr>quota = 0, net = [Inr (JObj [])], events = []\<rparr>"
       and env = "scripted_env counting_limiter" and endpoint = "''120''"
       and m = GET and body = None and accountId = None and isWriteCall = False]
  have "quota (snd (makeRequest (scripted_env counting_limiter) ''120'' GET None
          None False \<lparr>quota = 0, net = [Inr (JObj [])], events = []\<rparr>)) = 0"
    by (simp add: Let_def)
  ultimately show ?thesis by simp
qed

text \<open>
  C2. For every call of \<open>makeRequest\<close> that carries an account id, the events of the
  call are one consultation of the Quota Tracker followed by the events of the Backoff
  Executor, none of which is a consultation: the gate runs exactly once, before the
  first attempt, and the limiter's state is the state after that one check, whatever
  the number of retries.
\<close>

theorem makeRequest_single_quota_check:
  assumes "truthy_str accountId"
  shows "\<exists>a rest. accountId = Some a
     \<and> new_events w (snd (makeRequest env endpoint m body accountId isWriteCall w)) =
         QuotaCheck a isWriteCall # rest
     \<and> (\<forall>e\<in>set rest. \<not> is_quota e)
     \<and> length (filter is_quota
          (new_events w (snd (makeRequest env endpoint m body accountId isWriteCall w)))) = 1
     \<and> quota (snd (makeRequest env endpoint m body accountId isWriteCall w)) =
         snd (checkRateLimit env a isWriteCall (quota w))"
proof -
  from assms obtain a where a: "accountId = Some a" "a \<noteq> []" by (cases accountId) auto
  from makeRequest_gated [OF a(2), of env endpoint m body isWriteCall w]
  obtain rest where
    q: "quota (snd (makeRequest env endpoint m body (Some a) isWriteCall w)) =
          snd (checkRateLimit env a isWriteCall (quota w))"
    and e: "events (snd (makeRequest env endpoint m body (Some a) isWriteCall w)) =
          events w @ QuotaCheck a isWriteCall # rest"
    and n: "\<forall>e\<in>set rest. \<not> is_quota e" by blast
  from e have ne: "new_events w (snd (makeRequest env endpoint m body (Some a) isWriteCall w)) =
      QuotaCheck a isWriteCall # rest"
    by (simp add: new_events_def)
  from n have "filter is_quota rest = []" by (simp add: filter_empty_conv)
  with ne have "length (filter is_quota
      (new_events w (snd (makeRequest env endpoint m body (Some a) isWriteCall w)))) = 1"
    by simp
  with a(1) q ne n show ?thesis by blast
qed

theorem makeRequest_single_quota_check_witness:
  "truthy_str (Some ''act_1'') \<and>
   length (filter is_quota
     (new_events
        \<lparr>quota = 0::nat, net = [Inl (Failure ProviderServerError ''500''), Inr (JObj [])],
         events = []\<rparr>
        (snd (makeRequest (scripted_env counting_limiter) ''act_1/campaigns'' POST None
           (Some ''act_1'') True
           \<lparr>quota = 0::nat, net = [Inl (Failure ProviderServerError ''500''), Inr (JObj [])],
            events = []\<rparr>)))) = 1"
  using makeRequest_single_quota_check
    [where accountId = "Some ''act_1''"
       and w = "\<lparr>quota = 0::nat,
                 net = [Inl (Failure ProviderServerError ''500''), Inr (JObj [])], events = []\<rparr>"
       and env = "scripted_env counting_limiter" and endpoint = "''act_1/campaigns''"
       and m = POST and body = None and isWriteCall = True]
  by auto

subsection \<open>Terminal failures\<close>

text \<open>
  C7. When an attempt of the operation fails with a provider authentication error or a
  provider validation error, the Backoff Executor returns that failure at once: the
  world is the one the failed attempt left (no delay, no further attempt), and the
  attempt count in the error is the number of the failed attempt, 1 when it is the
  first.
\<close>

theorem terminal_failure_not_retried:
  assumes "op w = (Inl f, w')"
    and "failure_cls f = ProviderAuthInvalid \<or> failure_cls f = ProviderValidationError"
  shows "retryWithBackoff cfg op ctx w = (Inl (ApiError f 1 ctx), w')
     \<and> retry_loop cfg op ctx k n w = (Inl (ApiError f (Suc n) ctx), w')"
proof -
  from assms(2) have nr: "\<not> retryable (failure_cls f)" by auto
  have "retry_loop cfg op ctx j i w = (Inl (ApiError f (Suc i) ctx), w')" for j i
    using assms(1) nr by (cases j) simp_all
  then show ?thesis by (simp add: retryWithBackoff_def)
qed

lemma retry_loop_numeral:
  "retry_loop cfg op ctx (numeral k) n w = retry_loop cfg op ctx (Suc (pred_numeral k)) n w"
  by (simp only: numeral_eq_Suc)

lemmas scripted_defs = retry_loop_numeral counting_limiter_def
  makeRequest_def consult_def retryWithBackoff_def transport_def scripted_env_def
  scripted_fetch_def normalizeScopeId_def emit_def

theorem terminal_failure_not_retried_witness:
  "retryWithBackoff (backoff (scripted_env counting_limiter))
     (transport (scripted_env counting_limiter) ''https://g.test/v23.0/me'' GET None)
     ''GET me'' \<lparr>quota = 0::nat, net = [Inl (Failure ProviderAuthInvalid ''190''), Inr (JObj [])], events = []\<rparr>
   = (Inl (ApiError (Failure ProviderAuthInvalid ''190'') 1 ''GET me''),
      \<lparr>quota = 0, net = [Inr (JObj [])],
       events = [HttpCall \<lparr>req_url = ''https://g.test/v23.0/me'', req_method = GET,
                           req_headers = [(''Authorization'', ''Bearer t'')], req_body = None\<rparr>]\<rparr>)"
  using terminal_failure_not_retried
    [where op = "transport (scripted_env counting_limiter) ''https://g.test/v23.0/me'' GET None"
       and w = "\<lparr>quota = 0::nat, net = [Inl (Failure ProviderAuthInvalid ''190''), Inr (JObj [])], events = []\<rparr>"
       and f = "Failure ProviderAuthInvalid ''190''"
       and w' = "\<lparr>quota = 0, net = [Inr (JObj [])],
       events = [HttpCall \<lparr>req_url = ''https://g.test/v23.0/me'', req_method = GET,
                           req_headers = [(''Authorization'', ''Bearer t'')], req_body = None\<rparr>]\<rparr>"
       and cfg = "backoff (scripted_env counting_limiter)"
       and ctx = "''GET me''" and k = 0 and n = 0]
  by (simp add: transport_def scripted_env_def scripted_fetch_def emit_def)

subsection \<open>Operations that pass no account id\<close>

lemma new_events_quiet:
  assumes "\<not> truthy_str accountId"
  shows "quota (snd (makeRequest env endpoint m body accountId isWriteCall w)) = quota w"
    and "\<forall>e\<in>set (new_events w (snd (makeRequest env endpoint m body accountId isWriteCall w))).
           \<not> is_quota e"
proof -
  from makeRequest_ungated [OF assms, of env endpoint m body isWriteCall w]
  obtain es where q: "quota (snd (makeRequest env endpoint m body accountId isWriteCall w)) = quota w"
    and e: "events (snd (makeRequest env endpoint m body accountId isWriteCall w)) = events w @ es"
    and n: "\<forall>e\<in>set es. \<not> is_quota e" by blast
  from e have "new_events w (snd (makeRequest env endpoint m body accountId isWriteCall w)) = es"
    by (simp add: new_events_def)
  with n show "\<forall>e\<in>set (new_events w (snd (makeRequest env endpoint m body accountId isWriteCall w))).
           \<not> is_quota e" by simp
  from q show "quota (snd (makeRequest env endpoint m body accountId isWriteCall w)) = quota w" .
qed

lemma createAd_eq:
  "createAd env adSetId adData w =
     makeRequest env (adSetId @ ''/ads'') POST (Some (JStr (buildQueryString env adData))) None True w"
  by (simp add: createAd_def Let_def split: prod.splits sum.splits)

text \<open>
  C8. \<open>updateCampaign\<close>, \<open>deleteCampaign\<close>, \<open>createAd\<close> and \<open>batchRequest\<close> call
  \<open>makeRequest\<close> with \<open>undefined\<close> for the account id, so none of them consults the
  Quota Tracker: the quota state is unchanged and no consultation is among the events
  of the call.
\<close>

theorem writes_without_account_skip_quota:
  "updateCampaign env campaignId updates w =
     makeRequest env campaignId POST (Some (JStr (buildQueryString env updates))) None True w
   \<and> deleteCampaign env campaignId w = makeRequest env campaignId DELETE (Some JNull) None True w
   \<and> createAd env adSetId adData w =
     makeRequest env (adSetId @ ''/ads'') POST (Some (JStr (buildQueryString env adData))) None True w
   \<and> batchRequest env requests w =
     makeRequest env [] POST
       (Some (JStr (buildQueryString env
          [(''batch'', Some (JStr (jsonStringify env (JArr requests))))]))) None True w
   \<and> quota (snd (updateCampaign env campaignId updates w)) = quota w
   \<and> filter is_quota (new_events w (snd (updateCampaign env campaignId updates w))) = []
   \<and> quota (snd (deleteCampaign env campaignId w)) = quota w
   \<and> filter is_quota (new_events w (snd (deleteCampaign env campaignId w))) = []
   \<and> quota (snd (createAd env adSetId adData w)) = quota w
   \<and> filter is_quota (new_events w (snd (createAd env adSetId adData w))) = []
   \<and> quota (snd (batchRequest env requests w)) = quota w
   \<and> filter is_quota (new_events w (snd (batchRequest env requests w))) = []"
proof -
  have u: "updateCampaign env campaignId updates w =
     makeRequest env campaignId POST (Some (JStr (buildQueryString env updates))) None True w"
    by (simp add: updateCampaign_def)
  have d: "deleteCampaign env campaignId w = makeRequest env campaignId DELETE (Some JNull) None True w"
    by (simp add: deleteCampaign_def)
  have b: "batchRequest env requests w =
     makeRequest env [] POST
       (Some (JStr (buildQueryString env
          [(''batch'', Some (JStr (jsonStringify env (JArr requests))))]))) None True w"
    by (simp add: batchRequest_def)
  note c = createAd_eq [of env adSetId adData w]
  have t: "\<not> truthy_str None" by simp
  have q: "quota (snd (makeRequest env ep m bd None True w)) = quota w" for ep m bd
    using new_events_quiet(1) [OF t] .
  have f: "filter is_quota (new_events w (snd (makeRequest env ep m bd None True w))) = []"
    for ep m bd
    using new_events_quiet(2) [OF t, of w env ep m bd True] by (simp add: filter_empty_conv)
  show ?thesis
    unfolding u d b c by (simp only: q f simp_thms)
qed

theorem writes_without_account_skip_quota_witness:
  "quota (snd (deleteCampaign (scripted_env counting_limiter) ''120''
      \<lparr>quota = 0::nat, net = [Inr (JObj [(''success'', JBool True)])], events = []\<rparr>))
     = quota (\<lparr>quota = 0, net = [Inr (JObj [(''success'', JBool True)])], events = []\<rparr>
               :: (nat, (failure + json) list) world)
   \<and> filter is_quota
       (new_events \<lparr>quota = 0::nat, net = [Inr (JObj [(''success'', JBool True)])], events = []\<rparr>
         (snd (deleteCampaign (scripted_env counting_limiter) ''120''
            \<lparr>quota = 0::nat, net = [Inr (JObj [(''success'', JBool True)])], events = []\<rparr>)))
       = []"
  using writes_without_account_skip_quota
    [where env = "scripted_env counting_limiter" and campaignId = "''120''"
       and updates = "[]" and adSetId = "''1''" and adData = "[]" and requests = "[]"
       and w = "\<lparr>quota = 0::nat, net = [Inr (JObj [(''success'', JBool True)])], events = []\<rparr>"]
  by blast

subsection \<open>List calls without a parent object\<close>

text \<open>
  C10. \<open>getAdSets\<close> with neither campaign id nor account id, and \<open>getAds\<close> with none of
  ad set id, campaign id and account id (absent or empty, as the guards test), fail
  with an error and leave the world as it was: no quota check, no request, no change
  of the quota state.
\<close>

theorem list_calls_need_a_parent:
  "(\<not> truthy_str campaignId \<and> \<not> truthy_str accountId \<longrightarrow>
      getAdSets env campaignId accountId status fieldNames paginationParams w =
        (Inl (ClientError ''Either campaignId or accountId must be provided''), w))
   \<and> (\<not> truthy_str adsetId \<and> \<not> truthy_str campaignId \<and> \<not> truthy_str accountId \<longrightarrow>
      getAds env adsetId campaignId accountId status fieldNames paginationParams w =
        (Inl (ClientError ''Either adsetId, campaignId, or accountId must be provided''), w))"
proof -
  have g: "given s = None" if "\<not> truthy_str s" for s
    using that by (cases s) auto
  show ?thesis
    by (simp add: getAdSets_def getAds_def g)
qed

theorem list_calls_need_a_parent_witness:
  "getAdSets (scripted_env counting_limiter) None None (Some ''ACTIVE'') None [(''limit'', Some (JNum 25))]
      \<lparr>quota = 0::nat, net = [Inr (JObj [])], events = []\<rparr> =
     (Inl (ClientError ''Either campaignId or accountId must be provided''),
      \<lparr>quota = 0::nat, net = [Inr (JObj [])], events = []\<rparr>)
   \<and> getAds (scripted_env counting_limiter) None (Some '''') None None None []
      \<lparr>quota = 0::nat, net = [Inr (JObj [])], events = []\<rparr> =
     (Inl (ClientError ''Either adsetId, campaignId, or accountId must be provided''),
      \<lparr>quota = 0::nat, net = [Inr (JObj [])], events = []\<rparr>)"
  using list_calls_need_a_parent
    [where env = "scripted_env counting_limiter" and campaignId = None and accountId = None
       and status = "Some ''ACTIVE''" and fieldNames = None
       and paginationParams = "[(''limit'', Some (JNum 25))]"
       and w = "\<lparr>quota = 0::nat, net = [Inr (JObj [])], events = []\<rparr>"]
    list_calls_need_a_parent
    [where env = "scripted_env counting_limiter" and adsetId = None
       and campaignId = "Some ''''" and accountId = None
       and status = None and fieldNames = None
       and paginationParams = "[]"
       and w = "\<lparr>quota = 0::nat, net = [Inr (JObj [])], events = []\<rparr>"]
  by simp


subsection \<open>Operations that swallow failures\<close>

text \<open>
  C9. \<open>getFundingSources\<close> and \<open>getAccountBusiness\<close> always return a value, never an
  error. \<open>getFundingSources\<close> returns the empty array when the request fails, the
  \<open>data\<close> array of the response when there is one, and in every case either the empty
  array or the \<open>data\<close> member of the response; \<open>getAccountBusiness\<close> returns the empty
  object when the request fails and the decoded body otherwise.
\<close>

theorem funding_and_business_never_throw:
  "(\<exists>v. fst (getFundingSources env accountId w) = Inr v)
   \<and> (\<exists>v. fst (getAccountBusiness env accountId w) = Inr v)
   \<and> (\<forall>e. fst (makeRequest env (getAccountId env accountId @ ''/funding_source_details'') GET None
               (Some (getAccountId env accountId)) False w) = Inl e
         \<longrightarrow> fst (getFundingSources env accountId w) = Inr (JArr []))
   \<and> (\<forall>result xs.
         fst (makeRequest env (getAccountId env accountId @ ''/funding_source_details'') GET None
               (Some (getAccountId env accountId)) False w) = Inr result
         \<and> getProp ''data'' result = Inr (Some (JArr xs))
         \<longrightarrow> fst (getFundingSources env accountId w) = Inr (JArr xs))
   \<and> (fst (getFundingSources env accountId w) = Inr (JArr [])
        \<or> (\<exists>result d.
              fst (makeRequest env (getAccountId env accountId @ ''/funding_source_details'') GET
                    None (Some (getAccountId env accountId)) False w) = Inr result
              \<and> getProp ''data'' result = Inr (Some d)
              \<and> fst (getFundingSources env accountId w) = Inr d))
   \<and> (\<forall>e. fst (makeRequest env (getAccountId env accountId @ ''/business'') GET None
               (Some (getAccountId env accountId)) False w) = Inl e
         \<longrightarrow> fst (getAccountBusiness env accountId w) = Inr (JObj []))
   \<and> (\<forall>result.
         fst (makeRequest env (getAccountId env accountId @ ''/business'') GET None
               (Some (getAccountId env accountId)) False w) = Inr result
         \<longrightarrow> fst (getAccountBusiness env accountId w) = Inr result)"
proof -
  obtain r w1 where f: "makeRequest env (getAccountId env accountId @ ''/funding_source_details'')
      GET None (Some (getAccountId env accountId)) False w = (r, w1)"
    by (cases "makeRequest env (getAccountId env accountId @ ''/funding_source_details'')
      GET None (Some (getAccountId env accountId)) False w")
  obtain r' w2 where b: "makeRequest env (getAccountId env accountId @ ''/business'')
      GET None (Some (getAccountId env accountId)) False w = (r', w2)"
    by (cases "makeRequest env (getAccountId env accountId @ ''/business'')
      GET None (Some (getAccountId env accountId)) False w")
  have fs: "fst (getFundingSources env accountId w) =
      Inr (case r of
             Inl e \<Rightarrow> JArr []
           | Inr result \<Rightarrow>
               (case getProp ''data'' result of
                  Inr (Some d) \<Rightarrow> if truthy_json d then d else JArr []
                | _ \<Rightarrow> JArr []))"
    using f by (simp add: getFundingSources_def Let_def split: sum.splits option.splits)
  have bs: "fst (getAccountBusiness env accountId w) =
      Inr (case r' of Inl e \<Rightarrow> JObj [] | Inr result \<Rightarrow> result)"
    using b by (simp add: getAccountBusiness_def Let_def split: sum.splits)
  show ?thesis
    unfolding fs bs f b
    by (auto split: sum.splits option.splits)
qed

theorem funding_and_business_never_throw_witness:
  "fst (makeRequest (scripted_env counting_limiter)
          (getAccountId (scripted_env counting_limiter) ''7'' @ ''/funding_source_details'')
          GET None (Some (getAccountId (scripted_env counting_limiter) ''7'')) False
          \<lparr>quota = 0::nat, net = [Inl (Failure ProviderAuthInvalid ''200'')], events = []\<rparr>)
     = Inl (ApiError (Failure ProviderAuthInvalid ''200'') 1 ''GET act_7/funding_source_details'')
   \<and> fst (getFundingSources (scripted_env counting_limiter) ''7''
          \<lparr>quota = 0::nat, net = [Inl (Failure ProviderAuthInvalid ''200'')], events = []\<rparr>)
     = Inr (JArr [])"
proof -
  have m: "fst (makeRequest (scripted_env counting_limiter)
          (getAccountId (scripted_env counting_limiter) ''7'' @ ''/funding_source_details'')
          GET None (Some (getAccountId (scripted_env counting_limiter) ''7'')) False
          \<lparr>quota = 0::nat, net = [Inl (Failure ProviderAuthInvalid ''200'')], events = []\<rparr>)
     = Inl (ApiError (Failure ProviderAuthInvalid ''200'') 1 ''GET act_7/funding_source_details'')"
    by (simp add: scripted_defs)
  with funding_and_business_never_throw
    [where env = "scripted_env counting_limiter" and accountId = "''7''"
       and w = "\<lparr>quota = 0::nat, net = [Inl (Failure ProviderAuthInvalid ''200'')], events = []\<rparr>"]
  show ?thesis by blast
qed

subsection \<open>The Pagination Normalizer\<close>

text \<open>
  C5. On a raw envelope whose \<open>paging.cursors.after\<close> is the token \<open>X\<close> and which has
  no \<open>paging.next\<close>, the normalizer yields \<open>hasNextPage\<close> true and the forward cursor
  \<open>X\<close>; on an envelope with no \<open>paging\<close> block it yields \<open>hasNextPage\<close> and
  \<open>hasPreviousPage\<close> false, whatever the records of the envelope.
\<close>

theorem normalizer_cursor_presence:
  "(member ''after'' (member ''cursors'' (member ''paging'' (Some raw))) = Some (JStr X)
      \<and> member ''next'' (member ''paging'' (Some raw)) = None
    \<longrightarrow> hasNextPage (parsePaginatedResponse env raw)
        \<and> forwardCursor (parsePaginatedResponse env raw) = Some X)
   \<and> (member ''paging'' (Some raw) = None
    \<longrightarrow> \<not> hasNextPage (parsePaginatedResponse env raw)
        \<and> \<not> hasPreviousPage (parsePaginatedResponse env raw))"
  by (simp add: parsePaginatedResponse_def Let_def token_def member_def)

theorem normalizer_cursor_presence_witness:
  "hasNextPage (parsePaginatedResponse (scripted_env counting_limiter)
      (JObj [(''data'', JArr []),
             (''paging'', JObj [(''cursors'', JObj [(''before'', JStr ''B''), (''after'', JStr ''X'')])])]))
   \<and> forwardCursor (parsePaginatedResponse (scripted_env counting_limiter)
      (JObj [(''data'', JArr []),
             (''paging'', JObj [(''cursors'', JObj [(''before'', JStr ''B''), (''after'', JStr ''X'')])])]))
     = Some ''X''
   \<and> \<not> hasNextPage (parsePaginatedResponse (scripted_env counting_limiter)
      (JObj [(''data'', JArr [JNum 1, JNum 2, JNum 3])]))
   \<and> \<not> hasPreviousPage (parsePaginatedResponse (scripted_env counting_limiter)
      (JObj [(''data'', JArr [JNum 1, JNum 2, JNum 3])]))"
  using normalizer_cursor_presence
    [where raw = "JObj [(''data'', JArr []),
             (''paging'', JObj [(''cursors'', JObj [(''before'', JStr ''B''), (''after'', JStr ''X'')])])]"
       and X = "''X''" and env = "scripted_env counting_limiter"]
    normalizer_cursor_presence
    [where raw = "JObj [(''data'', JArr [JNum 1, JNum 2, JNum 3])]"
       and X = "''X''" and env = "scripted_env counting_limiter"]
  by (simp add: member_def)

subsection \<open>The Quota Tracker\<close>

lemma settle_within:
  "score win \<le> maxScore cfg \<Longrightarrow> settle cfg now key win t = (Proceed, t(key \<mapsto> win))"
  by (simp add: settle_def)

lemma settle_window:
  "\<exists>win'. snd (settle cfg now key win t) key = Some win' \<and> score win' = score win
      \<and> windowStart win' = windowStart win"
  by (simp add: settle_def)

lemma checkAndReserve_fresh:
  assumes "\<forall>win. t key = Some win \<longrightarrow> expired cfg now win"
  shows "checkAndReserve cfg now key cost t =
     settle cfg now key \<lparr>score = cost, windowStart = now, blockedUntil = None\<rparr> t"
  using assms by (simp add: checkAndReserve_def split: option.splits)

lemma run_calls_open_window:
  assumes "t key = Some win" and "blockedUntil win = None"
    and "\<forall>c\<in>set cs. fst c < windowStart win + decayMs cfg"
    and "score win + sum_list (map snd cs) \<le> maxScore cfg"
  shows "fst (run_calls cfg key cs t) = replicate (length cs) Proceed"
  using assms
proof (induction cs arbitrary: t win)
  case Nil
  then show ?case by simp
next
  case (Cons c cs)
  obtain now cost where c: "c = (now, cost)" by (cases c)
  let ?win = "win\<lparr>score := score win + cost\<rparr>"
  from Cons.prems c have ne: "\<not> expired cfg now win"
    by (simp add: expired_def)
  from Cons.prems c have le: "score ?win \<le> maxScore cfg" by simp
  have step: "checkAndReserve cfg now key cost t = (Proceed, t(key \<mapsto> ?win))"
    using Cons.prems(1,2) ne settle_within [OF le]
    by (simp add: checkAndReserve_def)
  have "fst (run_calls cfg key cs (t(key \<mapsto> ?win))) = replicate (length cs) Proceed"
  proof (rule Cons.IH [of _ ?win])
    show "(t(key \<mapsto> ?win)) key = Some ?win" by simp
    show "blockedUntil ?win = None" using Cons.prems(2) by simp
    show "\<forall>c\<in>set cs. fst c < windowStart ?win + decayMs cfg" using Cons.prems(3) by simp
    show "score ?win + sum_list (map snd cs) \<le> maxScore cfg" using Cons.prems(4) c by simp
  qed
  moreover obtain vs t' where "run_calls cfg key cs (t(key \<mapsto> ?win)) = (vs, t')"
    by (cases "run_calls cfg key cs (t(key \<mapsto> ?win))")
  ultimately show ?case using step c by simp
qed

text \<open>
  C6. When the scope key has no window, or its window has expired at the time of the
  call, \<open>checkAndReserve\<close> starts a new window at that time with score equal to the
  cost of the call. A sequence of calls for one scope key that starts such a window,
  stays inside its decay length and has costs summing to at most the maximum, has no
  call blocked.
\<close>

theorem quota_within_budget_never_blocked:
  "((\<forall>win. t key = Some win \<longrightarrow> expired cfg now win)
     \<longrightarrow> (\<exists>win'. snd (checkAndReserve cfg now key cost t) key = Some win'
           \<and> score win' = cost \<and> windowStart win' = now))
   \<and> ((\<forall>win. t key = Some win \<longrightarrow> expired cfg now win)
       \<and> (\<forall>c\<in>set cs. fst c < now + decayMs cfg)
       \<and> cost + sum_list (map snd cs) \<le> maxScore cfg
     \<longrightarrow> fst (run_calls cfg key ((now, cost) # cs) t) = replicate (Suc (length cs)) Proceed)"
proof (intro conjI impI)
  assume fresh: "\<forall>win. t key = Some win \<longrightarrow> expired cfg now win"
  show "\<exists>win'. snd (checkAndReserve cfg now key cost t) key = Some win'
           \<and> score win' = cost \<and> windowStart win' = now"
    using settle_window [of cfg now key "\<lparr>score = cost, windowStart = now, blockedUntil = None\<rparr>" t]
    using fresh by (simp add: checkAndReserve_fresh [of t key cfg now cost])
next
  assume a: "(\<forall>win. t key = Some win \<longrightarrow> expired cfg now win)
       \<and> (\<forall>c\<in>set cs. fst c < now + decayMs cfg)
       \<and> cost + sum_list (map snd cs) \<le> maxScore cfg"
  let ?win = "\<lparr>score = cost, windowStart = now, blockedUntil = None\<rparr>"
  from a have fresh: "\<forall>win. t key = Some win \<longrightarrow> expired cfg now win" by blast
  from a have le: "score ?win \<le> maxScore cfg" by simp
  have first: "checkAndReserve cfg now key cost t = (Proceed, t(key \<mapsto> ?win))"
    using fresh settle_within [OF le] by (simp add: checkAndReserve_fresh [of t key cfg now cost])
  have "fst (run_calls cfg key cs (t(key \<mapsto> ?win))) = replicate (length cs) Proceed"
  proof (rule run_calls_open_window [of _ _ ?win])
    show "(t(key \<mapsto> ?win)) key = Some ?win" by simp
    show "blockedUntil ?win = None" by simp
    show "\<forall>c\<in>set cs. fst c < windowStart ?win + decayMs cfg" using a by simp
    show "score ?win + sum_list (map snd cs) \<le> maxScore cfg" using a by simp
  qed
  moreover obtain vs t' where "run_calls cfg key cs (t(key \<mapsto> ?win)) = (vs, t')"
    by (cases "run_calls cfg key cs (t(key \<mapsto> ?win))")
  ultimately show "fst (run_calls cfg key ((now, cost) # cs) t) = replicate (Suc (length cs)) Proceed"
    using first by simp
qed

theorem quota_within_budget_never_blocked_witness:
  "fst (run_calls \<lparr>maxScore = 5, decayMs = 300000, blockMs = 300000\<rparr> ''act_1''
         [(1000, 1), (2000, 3), (300999, 1)] Map.empty) = [Proceed, Proceed, Proceed]
   \<and> (\<exists>win'. snd (checkAndReserve \<lparr>maxScore = 5, decayMs = 300000, blockMs = 300000\<rparr> 1000
                ''act_1'' 1 Map.empty) ''act_1'' = Some win'
         \<and> score win' = 1 \<and> windowStart win' = 1000)"
  using quota_within_budget_never_blocked
    [where t = Map.empty and key = "''act_1''" and now = 1000 and cost = 1
       and cfg = "\<lparr>maxScore = 5, decayMs = 300000, blockMs = 300000\<rparr>"
       and cs = "[(2000, 3), (300999, 1)]"]
  by simp

subsection \<open>Walking the pages of the account list\<close>

lemma retry_loop_success:
  "op w = (Inr v, w') \<Longrightarrow> retry_loop cfg op ctx k n w = (Inr v, w')"
  by (cases k) simp_all








lemma scripted_env_fields:
  "fetch (scripted_env l) = scripted_fetch"
  "handleResponse (scripted_env l) = (\<lambda>r. r)"
  "getAuthHeaders (scripted_env l) = Inr [(''Authorization'', ''Bearer t'')]"
  "checkRateLimit (scripted_env l) = l"
  "getAccountId (scripted_env l) = normalizeScopeId"
  "parseUrl (scripted_env l) = origin_url ''https://g.test''"
  by (simp_all add: scripted_env_def)




subsection \<open>Where the normalizer is applied\<close>

lemma retry_loop_result:
  assumes "fst (retry_loop cfg op ctx k n w) = Inr v"
  shows "\<exists>w1 w2. op w1 = (Inr v, w2)"
  using assms
proof (induction k arbitrary: n w)
  case 0
  then show ?case by (cases "op w") (auto split: sum.splits)
next
  case (Suc k)
  obtain r w' where ow: "op w = (r, w')" by (cases "op w")
  show ?case
  proof (cases r)
    case (Inr v')
    with ow Suc.prems show ?thesis by auto
  next
    case (Inl f)
    show ?thesis
    proof (cases "retryable (failure_cls f)")
      case True
      with Inl ow Suc.prems have
        "fst (retry_loop cfg op ctx k (Suc n) (emit (Backoff (backoff_delay cfg n)) w')) = Inr v"
        by simp
      then show ?thesis by (rule Suc.IH)
    next
      case False
      with Inl ow Suc.prems show ?thesis by simp
    qed
  qed
qed

lemma transport_result:
  assumes "transport env url m body w = (Inr b, w')"
  shows "\<exists>response. handleResponse env response = Inr b"
  using assms
  by (auto simp: transport_def Let_def split: sum.splits prod.splits)

lemma makeRequest_result:
  assumes "fst (makeRequest env endpoint m body accountId isWriteCall w) = Inr b"
  shows "\<exists>response. handleResponse env response = Inr b"
proof -
  let ?op = "transport env (getBaseUrl env @ ''/'' @ getApiVersion env @ ''/'' @ endpoint) m body"
  from assms obtain w1 where
    "fst (retry_loop (backoff env) ?op (method_name m @ '' '' @ endpoint)
       (maxAttempts (backoff env) - 1) 0 w1) = Inr b"
    by (auto simp: makeRequest_def retryWithBackoff_def Let_def split: option.splits prod.splits)
  from retry_loop_result [OF this] obtain w2 w3 where "?op w2 = (Inr b, w3)" by blast
  then show ?thesis by (rule transport_result)
qed

lemma makeRequest_scripted_body:
  assumes "fetch env = scripted_fetch" and "handleResponse env = (\<lambda>r. r)"
    and "getAuthHeaders env = Inr h" and "net w = Inr b # rest"
    and "\<And>a q. fst (checkRateLimit env a isWriteCall q) = None"
  shows "fst (makeRequest env endpoint m body accountId isWriteCall w) = Inr b"
proof -
  let ?url = "getBaseUrl env @ ''/'' @ getApiVersion env @ ''/'' @ endpoint"
  have t: "fst (transport env ?url m body w1) = Inr b" if "net w1 = Inr b # rest" for w1 :: "('a, (failure + json) list) world"
    using assms(1-3) that
    by (auto simp: transport_def scripted_fetch_def Let_def split: option.splits json.splits)
  have r: "fst (retry_loop (backoff env) (transport env ?url m body) ctx k 0 w1) = Inr b"
    if "net w1 = Inr b # rest" for w1 :: "('a, (failure + json) list) world" and ctx k
  proof -
    from t [OF that] obtain w2 where "transport env ?url m body w1 = (Inr b, w2)"
      by (cases "transport env ?url m body w1") auto
    then show ?thesis by (simp add: retry_loop_success)
  qed
  show ?thesis
  proof (cases "given accountId")
    case None
    then show ?thesis
      using r [OF assms(4)] by (simp add: makeRequest_def retryWithBackoff_def)
  next
    case (Some a)
    obtain x q' where c: "checkRateLimit env a isWriteCall (quota w) = (x, q')"
      by (cases "checkRateLimit env a isWriteCall (quota w)")
    with assms(5) [of a "quota w"] have "x = None" by simp
    with Some c show ?thesis
      using r [of "emit (QuotaCheck a isWriteCall) (w\<lparr>quota := q'\<rparr>)"] assms(4)
      by (simp add: makeRequest_def retryWithBackoff_def consult_def)
  qed
qed

lemma fst_normalized:
  "fst (case x of (Inl e, w') \<Rightarrow> (Inl e, w') | (Inr r, w') \<Rightarrow> (Inr (P r), w')) =
     map_sum id P (fst x)"
  by (cases x; cases "fst x") auto

text \<open>
  C4, as the code has it. \<open>makeRequest\<close> returns the decoded body as
  \<open>handleResponse\<close> produced it, whatever its shape: it never normalises. The list
  operations \<open>getCampaigns\<close>, \<open>getAdSets\<close> and \<open>getAds\<close> apply the Pagination
  Normalizer to whatever body \<open>makeRequest\<close> returns, list envelope or not, and pass
  its errors on.
\<close>

theorem normalizer_applied_by_list_operations:
  "(fst (makeRequest env endpoint m body accountId isWriteCall w) = Inr b
      \<longrightarrow> (\<exists>response. handleResponse env response = Inr b))
   \<and> (\<exists>ep. fst (getCampaigns env acct st fieldNames paginationParams w) =
          map_sum id (parsePaginatedResponse env)
            (fst (makeRequest env ep GET (Some JNull) (Some (getAccountId env acct)) False w)))
   \<and> (truthy_str campaignId \<or> truthy_str accId
      \<longrightarrow> (\<exists>ep. fst (getAdSets env campaignId accId status fieldNames paginationParams w) =
          map_sum id (parsePaginatedResponse env)
            (fst (makeRequest env ep GET (Some JNull) (map_option (getAccountId env) (given accId))
                    False w))))
   \<and> (truthy_str adsetId \<or> truthy_str campaignId \<or> truthy_str accId
      \<longrightarrow> (\<exists>ep. fst (getAds env adsetId campaignId accId status fieldNames paginationParams w) =
          map_sum id (parsePaginatedResponse env)
            (fst (makeRequest env ep GET (Some JNull) (map_option (getAccountId env) (given accId))
                    False w))))"
proof (intro conjI impI)
  assume "fst (makeRequest env endpoint m body accountId isWriteCall w) = Inr b"
  then show "\<exists>response. handleResponse env response = Inr b" by (rule makeRequest_result)
next
  show "\<exists>ep. fst (getCampaigns env acct st fieldNames paginationParams w) =
          map_sum id (parsePaginatedResponse env)
            (fst (makeRequest env ep GET (Some JNull) (Some (getAccountId env acct)) False w))"
    unfolding getCampaigns_def Let_def fst_normalized
    by (rule exI) (rule refl)
next
  assume "truthy_str campaignId \<or> truthy_str accId"
  then have "given campaignId \<noteq> None \<or> given accId \<noteq> None"
    by (cases campaignId; cases accId) auto
  then show "\<exists>ep. fst (getAdSets env campaignId accId status fieldNames paginationParams w) =
          map_sum id (parsePaginatedResponse env)
            (fst (makeRequest env ep GET (Some JNull) (map_option (getAccountId env) (given accId))
                    False w))"
    unfolding getAdSets_def Let_def
    by (cases "given campaignId"; cases "given accId")
       (auto simp: fst_normalized simp del: map_sum.simps intro!: exI)
next
  assume "truthy_str adsetId \<or> truthy_str campaignId \<or> truthy_str accId"
  then have "given adsetId \<noteq> None \<or> given campaignId \<noteq> None \<or> given accId \<noteq> None"
    by (cases adsetId; cases campaignId; cases accId) auto
  then show "\<exists>ep. fst (getAds env adsetId campaignId accId status fieldNames paginationParams w) =
          map_sum id (parsePaginatedResponse env)
            (fst (makeRequest env ep GET (Some JNull) (map_option (getAccountId env) (given accId))
                    False w))"
    unfolding getAds_def Let_def
    by (cases "given adsetId"; cases "given campaignId"; cases "given accId")
       (auto simp: fst_normalized simp del: map_sum.simps intro!: exI)
qed


lemma makeRequest_demo_body:
  "fst (makeRequest (scripted_env counting_limiter) endpoint m body accountId isWriteCall
         \<lparr>quota = q, net = [Inr b], events = []\<rparr>) = Inr b"
  by (rule makeRequest_scripted_body [where rest = "[]"])
     (simp_all add: scripted_env_fields counting_limiter_def)

lemma getFundingSources_fst:
  "fst (getFundingSources env accountId w) =
     Inr (case fst (makeRequest env (getAccountId env accountId @ ''/funding_source_details'') GET
                      None (Some (getAccountId env accountId)) False w) of
            Inl e \<Rightarrow> JArr []
          | Inr result \<Rightarrow>
              (case getProp ''data'' result of
                 Inr (Some d) \<Rightarrow> if truthy_json d then d else JArr []
               | _ \<Rightarrow> JArr []))"
  by (simp add: getFundingSources_def Let_def split: prod.splits sum.splits option.splits)

theorem normalizer_applied_by_list_operations_witness:
  "fst (makeRequest (scripted_env counting_limiter) ''act_7/campaigns'' GET (Some JNull)
          (Some ''act_7'') False \<lparr>quota = 0, net = [Inr page_cursors_only], events = []\<rparr>)
     = Inr page_cursors_only
   \<and> (\<exists>response. handleResponse (scripted_env counting_limiter) response = Inr page_cursors_only)
   \<and> truthy_str (Some ''120'')
   \<and> (\<exists>ep. fst (getAdSets (scripted_env counting_limiter) (Some ''120'') None None None []
                  \<lparr>quota = 0, net = [Inr page_cursors_only], events = []\<rparr>) =
          map_sum id (parsePaginatedResponse (scripted_env counting_limiter))
            (fst (makeRequest (scripted_env counting_limiter) ep GET (Some JNull)
                    (map_option (getAccountId (scripted_env counting_limiter)) (given None))
                    False \<lparr>quota = 0, net = [Inr page_cursors_only], events = []\<rparr>)))"
  using normalizer_applied_by_list_operations
    [where env = "scripted_env counting_limiter" and endpoint = "''act_7/campaigns''" and m = GET
       and body = "Some JNull" and accountId = "Some ''act_7''" and isWriteCall = False
       and w = "\<lparr>quota = 0, net = [Inr page_cursors_only], events = []\<rparr>"
       and b = page_cursors_only and campaignId = "Some ''120''" and accId = None
       and status = None and fieldNames = None and paginationParams = "[]"]
    makeRequest_demo_body [of "''act_7/campaigns''" GET "Some JNull" "Some ''act_7''" False 0
       page_cursors_only]
  by simp

text \<open>
  C4, as the claim states it, fails in both directions. A list envelope comes back from
  \<open>makeRequest\<close> as the decoded body, and from \<open>getFundingSources\<close> as its bare
  \<open>data\<close> array, where step 4 asks for the normalised result; a body that is not a list
  envelope comes back from \<open>getCampaigns\<close> normalised, where step 4 asks for the body
  itself.
\<close>

theorem request_path_is_not_step4:
  "fst (makeRequest (scripted_env counting_limiter) ''act_7/funding_source_details'' GET None
          (Some ''act_7'') False \<lparr>quota = 0, net = [Inr page_cursors_only], events = []\<rparr>)
     = Inr page_cursors_only
   \<and> Decoded page_cursors_only \<noteq> request_step4 (scripted_env counting_limiter) page_cursors_only
   \<and> fst (getFundingSources (scripted_env counting_limiter) ''7''
          \<lparr>quota = 0, net = [Inr page_cursors_only], events = []\<rparr>) = Inr (JArr [JStr ''act_3''])
   \<and> fst (getCampaigns (scripted_env counting_limiter) ''7'' None None []
          \<lparr>quota = 0, net = [Inr single_resource], events = []\<rparr>)
     = Inr (parsePaginatedResponse (scripted_env counting_limiter) single_resource)
   \<and> Normalized (parsePaginatedResponse (scripted_env counting_limiter) single_resource)
       \<noteq> request_step4 (scripted_env counting_limiter) single_resource"
proof (intro conjI)
  show "fst (makeRequest (scripted_env counting_limiter) ''act_7/funding_source_details'' GET None
          (Some ''act_7'') False \<lparr>quota = 0, net = [Inr page_cursors_only], events = []\<rparr>)
     = Inr page_cursors_only"
    by (rule makeRequest_demo_body)
  show "Decoded page_cursors_only \<noteq> request_step4 (scripted_env counting_limiter) page_cursors_only"
    by (simp add: request_step4_def is_list_envelope_def member_def page_cursors_only_def)
  show "fst (getFundingSources (scripted_env counting_limiter) ''7''
          \<lparr>quota = 0, net = [Inr page_cursors_only], events = []\<rparr>) = Inr (JArr [JStr ''act_3''])"
    unfolding getFundingSources_fst makeRequest_demo_body
    by (simp add: page_cursors_only_def)
  show "fst (getCampaigns (scripted_env counting_limiter) ''7'' None None []
          \<lparr>quota = 0, net = [Inr single_resource], events = []\<rparr>)
     = Inr (parsePaginatedResponse (scripted_env counting_limiter) single_resource)"
    unfolding getCampaigns_def Let_def fst_normalized makeRequest_demo_body
    by simp
  show "Normalized (parsePaginatedResponse (scripted_env counting_limiter) single_resource)
       \<noteq> request_step4 (scripted_env counting_limiter) single_resource"
    by (simp add: request_step4_def is_list_envelope_def member_def single_resource_def)
qed

end
